theory Spec2Isabelle
  imports Main "HOL-Library.AList"
begin

section \<open>JavaScript values, objects and the heap\<close>

text \<open>
  The values that travel through \<^verbatim>\<open>ethereum-remote.js\<close>. A number is an integer (the
  schemas ask for \<^verbatim>\<open>Joi.number().integer()\<close>; the node's numeric answers, BigNumber
  included, are integers as well). \<open>JWeb3\<close> is a reference to an object with the interface
  of a Web3 instance; what that instance does is given by a \<open>web3\<close> record below.
  \<open>JOther\<close> stands for every other value (null, booleans, functions, ...).
\<close>

datatype jsval =
    JUndefined
  | JNumber int
  | JString string
  | JArray "jsval list"
  | JObject "(string \<times> jsval) list"
  | JWeb3
  | JOther nat

text \<open>
  An object is the list of its own properties in insertion order. Reading a property
  that the object does not have yields \<^verbatim>\<open>undefined\<close>; assigning to a property keeps an
  existing property in place and appends a new one.
\<close>

type_synonym jsobject = "(string \<times> jsval) list"

definition get :: "jsobject \<Rightarrow> string \<Rightarrow> jsval" where
  "get obj k = (case map_of obj k of None \<Rightarrow> JUndefined | Some v \<Rightarrow> v)"

definition hasOwnProperty :: "jsobject \<Rightarrow> string \<Rightarrow> bool" where
  "hasOwnProperty obj k = (map_of obj k \<noteq> None)"

definition set_prop :: "jsobject \<Rightarrow> string \<Rightarrow> jsval \<Rightarrow> jsobject" where
  "set_prop obj k v = AList.update k v obj"

text \<open>
  Objects are passed by reference. The heap is the list of the objects allocated so far,
  a reference is an index into it, and a new object is appended, so that it is distinct
  from every object that already exists.
\<close>

type_synonym ref = nat
type_synonym heap = "jsobject list"

definition alloc :: "heap \<Rightarrow> jsobject \<Rightarrow> ref \<times> heap" where
  "alloc h obj = (length h, h @ [obj])"

text \<open>
  Errors are values. \<open>ValidationError\<close> is the error object of Joi (with the key it
  complains about), \<open>TypeError\<close> is the language's own, and \<open>LibError\<close> is whatever a
  library or the remote node reports.
\<close>

datatype jserror =
    ValidationError string
  | TypeError string
  | LibError nat

text \<open>
  How a call of one of the exported functions ends. \<open>Thrown\<close>: the function threw before
  it returned a promise. \<open>Resolved\<close> and \<open>Rejected\<close>: it returned a promise, which was
  settled so. \<open>Uncaught\<close>: it returned a promise, and an exception was thrown later inside
  a callback that the remote-node library invoked; no handler of the promise sees that
  exception and the promise is never settled.
\<close>

datatype outcome =
    Thrown jserror
  | Resolved jsval
  | Rejected jserror
  | Uncaught jserror

section \<open>The libraries the code is written against\<close>

subsection \<open>Joi\<close>

text \<open>
  The three schemas use four kinds of key: \<^verbatim>\<open>Joi.string()\<close>, \<^verbatim>\<open>Joi.array()\<close>,
  \<^verbatim>\<open>Joi.number().integer()\<close> and \<^verbatim>\<open>Joi.any()\<close>, each either \<^verbatim>\<open>.required()\<close> or optional.
  A schema is the list of its keys in source order.
\<close>

datatype joi_type = JoiString | JoiArray | JoiNumberInteger | JoiAny

type_synonym joi_schema = "(string \<times> joi_type \<times> bool) list"

text \<open>
  Whether a defined value is of the type a key asks for. A string is accepted where a
  number or an array is asked for exactly when Joi can convert it; which strings those
  are is left to the parameter \<open>conv\<close>. Joi's strings are not empty.
\<close>

fun joi_accepts :: "(joi_type \<Rightarrow> string \<Rightarrow> bool) \<Rightarrow> joi_type \<Rightarrow> jsval \<Rightarrow> bool" where
  "joi_accepts conv JoiAny v = True"
| "joi_accepts conv JoiString (JString s) = (s \<noteq> [])"
| "joi_accepts conv JoiString v = False"
| "joi_accepts conv JoiArray (JArray xs) = True"
| "joi_accepts conv JoiArray (JString s) = conv JoiArray s"
| "joi_accepts conv JoiArray v = False"
| "joi_accepts conv JoiNumberInteger (JNumber n) = True"
| "joi_accepts conv JoiNumberInteger (JString s) = conv JoiNumberInteger s"
| "joi_accepts conv JoiNumberInteger v = False"

text \<open>
  A key passes when its value is undefined and the key is optional, or when its value is
  defined and of the key's type.
\<close>

definition joi_key_ok :: "(joi_type \<Rightarrow> string \<Rightarrow> bool) \<Rightarrow> jsobject \<Rightarrow> string \<times> joi_type \<times> bool \<Rightarrow> bool" where
  "joi_key_ok conv obj e =
     (case e of (k, t, req) \<Rightarrow>
        (if get obj k = JUndefined then \<not> req else joi_accepts conv t (get obj k)))"

text \<open>
  \<^verbatim>\<open>Joi.validate(params, schema)\<close> with Joi's defaults: the first key of the schema that
  does not pass is reported; otherwise the first property of the object that the schema
  does not know is reported; otherwise there is no error.
\<close>

definition Joi_validate :: "(joi_type \<Rightarrow> string \<Rightarrow> bool) \<Rightarrow> jsobject \<Rightarrow> joi_schema \<Rightarrow> jserror option" where
  "Joi_validate conv obj schema =
     (case filter (\<lambda>e. \<not> joi_key_ok conv obj e) schema of
        e # _ \<Rightarrow> Some (ValidationError (fst e))
      | [] \<Rightarrow>
        (case filter (\<lambda>k. k \<notin> set (map fst schema)) (map fst obj) of
           k # _ \<Rightarrow> Some (ValidationError k)
         | [] \<Rightarrow> None))"

subsection \<open>lodash\<close>

text \<open>
  \<^verbatim>\<open>_.find(abi, {name: functionName})\<close>: the first element of the array that is an object
  whose property \<^verbatim>\<open>name\<close> equals the name asked for, \<^verbatim>\<open>undefined\<close> when there is none.
\<close>

definition has_name :: "jsval \<Rightarrow> jsval \<Rightarrow> bool" where
  "has_name d fname = (case d of JObject props \<Rightarrow> map_of props ''name'' = Some fname | _ \<Rightarrow> False)"

definition lodash_find :: "jsval \<Rightarrow> jsval \<Rightarrow> jsval" where
  "lodash_find abi fname =
     (case abi of
        JArray ds \<Rightarrow> (case List.find (\<lambda>d. has_name d fname) ds of None \<Rightarrow> JUndefined | Some d \<Rightarrow> d)
      | _ \<Rightarrow> JUndefined)"

text \<open>\<^verbatim>\<open>_.omit(obj, keys)\<close> is a new object without the keys; \<^verbatim>\<open>_.assign\<close> sets a property.\<close>

definition lodash_omit :: "jsobject \<Rightarrow> string list \<Rightarrow> jsobject" where
  "lodash_omit obj ks = filter (\<lambda>kv. fst kv \<notin> set ks) obj"

definition lodash_assign :: "jsobject \<Rightarrow> string \<Rightarrow> jsval \<Rightarrow> jsobject" where
  "lodash_assign obj k v = set_prop obj k v"

subsection \<open>web3\<close>

text \<open>
  A Web3 instance, as far as the code uses it: the five remote procedure calls, each of
  which hands its callback either an error or a result, and \<^verbatim>\<open>toHex\<close>.
\<close>

record web3 =
  eth_getTransactionCount :: "jsval \<Rightarrow> jserror + jsval"
  eth_getGasPrice :: "jserror + jsval"
  eth_estimateGas :: "jsval \<Rightarrow> jsval \<Rightarrow> jserror + jsval"
  eth_sendRawTransaction :: "jsval \<Rightarrow> jserror + jsval"
  eth_call :: "jsval \<Rightarrow> jsval \<Rightarrow> jserror + jsval"
  toHex_other :: "jsval \<Rightarrow> jsval"

text \<open>The remote procedure calls a run performs, in order, with their arguments.\<close>

datatype rpc =
    GetTransactionCount jsval
  | GetGasPrice
  | EstimateGas jsval jsval
  | SendRawTransaction jsval
  | EthCall jsval jsval

text \<open>
  \<^verbatim>\<open>toHex\<close> of a number is the string of its hexadecimal digits (lower case, no leading
  zero digit, the single digit 0 for zero) behind \<^verbatim>\<open>0x\<close>, or behind \<^verbatim>\<open>-0x\<close> for a negative
  number. It is what the earlier revisions of the file wrote by hand as
  \<^verbatim>\<open>'0x' + n.toString(16)\<close> and \<^verbatim>\<open>'0x0'\<close>. What \<^verbatim>\<open>toHex\<close> makes of a value that is not a
  number is left to the instance.
\<close>

definition hex_digit :: "nat \<Rightarrow> char" where
  "hex_digit d = ''0123456789abcdef'' ! d"

fun hex_of_nat :: "nat \<Rightarrow> string" where
  "hex_of_nat n = (if n < 16 then [hex_digit n] else hex_of_nat (n div 16) @ [hex_digit (n mod 16)])"

definition toHex :: "web3 \<Rightarrow> jsval \<Rightarrow> jsval" where
  "toHex w v =
     (case v of
        JNumber n \<Rightarrow> JString ((if n < 0 then ''-0x'' else ''0x'') @ hex_of_nat (nat \<bar>n\<bar>))
      | _ \<Rightarrow> toHex_other w v)"

subsection \<open>The function encoder, the transaction codec and Buffer\<close>

text \<open>The object literal \<^verbatim>\<open>rawTx\<close> that is handed to \<^verbatim>\<open>new EthereumTx\<close>.\<close>

record rawTx =
  tx_to :: jsval
  tx_data :: jsval
  tx_value :: jsval
  tx_from :: jsval
  tx_nonce :: jsval
  tx_gasLimit :: jsval
  tx_gasPrice :: jsval

text \<open>
  The rest of the libraries is a parameter of the model: which strings Joi converts, the
  Web3 instance that belongs to a provider, the payload the function encoder builds from
  a descriptor and the arguments, the transaction object \<^verbatim>\<open>new EthereumTx\<close> builds,
  \<^verbatim>\<open>Buffer.from(s, 'hex')\<close>, \<^verbatim>\<open>tx.sign\<close> and \<^verbatim>\<open>tx.serialize\<close>. Each that can throw returns a
  sum.
\<close>

record 'tx libs =
  joi_convert :: "joi_type \<Rightarrow> string \<Rightarrow> bool"
  new_Web3 :: "jsval \<Rightarrow> web3"
  abi_toPayload :: "jsval \<Rightarrow> jsval \<Rightarrow> jserror + jsval"
  new_EthereumTx :: "rawTx \<Rightarrow> jserror + 'tx"
  buffer_from_hex :: "jsval \<Rightarrow> jserror + nat list"
  tx_sign :: "'tx \<Rightarrow> nat list \<Rightarrow> jserror + 'tx"
  tx_serialize :: "'tx \<Rightarrow> nat list"

text \<open>
  \<^verbatim>\<open>new SolidityFunction('', json, '')\<close> reads \<^verbatim>\<open>json.inputs\<close>, which is a TypeError when
  \<^verbatim>\<open>json\<close> is undefined; \<^verbatim>\<open>toPayload(args).data\<close> is the encoder's payload otherwise.
\<close>

definition SolidityFunction_toPayload :: "'tx libs \<Rightarrow> jsval \<Rightarrow> jsval \<Rightarrow> jserror + jsval" where
  "SolidityFunction_toPayload L json args =
     (if json = JUndefined then Inl (TypeError ''Cannot read property inputs of undefined'')
      else abi_toPayload L json args)"

text \<open>\<^verbatim>\<open>buf.toString('hex')\<close>: two digits for every byte.\<close>

definition toString_hex :: "nat list \<Rightarrow> string" where
  "toString_hex bs = concat (map (\<lambda>b. [hex_digit (b div 16 mod 16), hex_digit (b mod 16)]) bs)"

section \<open>ethereum-remote.js\<close>

definition schema_sendTransaction :: joi_schema where
  "schema_sendTransaction =
     [(''from'', JoiString, True),
      (''privateKey'', JoiString, True),
      (''contractAddress'', JoiString, True),
      (''abi'', JoiArray, True),
      (''functionName'', JoiString, True),
      (''functionArguments'', JoiArray, True),
      (''provider'', JoiString, True),
      (''value'', JoiNumberInteger, False),
      (''gasLimit'', JoiNumberInteger, False)]"

definition schema_call :: joi_schema where
  "schema_call =
     [(''contractAddress'', JoiString, True),
      (''abi'', JoiArray, True),
      (''functionName'', JoiString, True),
      (''functionArguments'', JoiArray, True),
      (''provider'', JoiString, True)]"

definition schema_createSignedRawTransaction :: joi_schema where
  "schema_createSignedRawTransaction =
     [(''from'', JoiString, True),
      (''privateKey'', JoiString, True),
      (''contractAddress'', JoiString, True),
      (''abi'', JoiArray, True),
      (''functionName'', JoiString, True),
      (''functionArguments'', JoiArray, True),
      (''web3'', JoiAny, True),
      (''value'', JoiNumberInteger, False),
      (''gasLimit'', JoiNumberInteger, False)]"

text \<open>
  The payload, built the same way at the start of the promise of \<^verbatim>\<open>call\<close> and of
  \<^verbatim>\<open>createSignedRawTransaction\<close>: find the descriptor, construct the function object,
  encode the arguments.
\<close>

definition payloadData :: "'tx libs \<Rightarrow> jsobject \<Rightarrow> jserror + jsval" where
  "payloadData L params =
     SolidityFunction_toPayload L
       (lodash_find (get params ''abi'') (get params ''functionName''))
       (get params ''functionArguments'')"

text \<open>The object literal at the head of \<^verbatim>\<open>sign_and_serialize\<close>.\<close>

definition build_rawTx :: "web3 \<Rightarrow> jsobject \<Rightarrow> jsval \<Rightarrow> jsval \<Rightarrow> jsval \<Rightarrow> jsval \<Rightarrow> rawTx" where
  "build_rawTx w params nonce payload gasPrice gasLimit =
     \<lparr> tx_to = get params ''contractAddress'',
       tx_data = payload,
       tx_value = toHex w (get params ''value''),
       tx_from = get params ''from'',
       tx_nonce = toHex w nonce,
       tx_gasLimit = toHex w gasLimit,
       tx_gasPrice = toHex w gasPrice \<rparr>"

definition sign_and_serialize ::
  "'tx libs \<Rightarrow> web3 \<Rightarrow> jsobject \<Rightarrow> jsval \<Rightarrow> jsval \<Rightarrow> jsval \<Rightarrow> jsval \<Rightarrow> jserror + nat list" where
  "sign_and_serialize L w params nonce payload gasPrice gasLimit =
     (case new_EthereumTx L (build_rawTx w params nonce payload gasPrice gasLimit) of
        Inl e \<Rightarrow> Inl e
      | Inr tx \<Rightarrow>
        (case buffer_from_hex L (get params ''privateKey'') of
           Inl e \<Rightarrow> Inl e
         | Inr privateKeyBuffer \<Rightarrow>
           (case tx_sign L tx privateKeyBuffer of
              Inl e \<Rightarrow> Inl e
            | Inr signed \<Rightarrow> Inr (tx_serialize L signed))))"

text \<open>
  \<^verbatim>\<open>resolve('0x' + serializedTx.toString('hex'))\<close>, where \<^verbatim>\<open>serializedTx\<close> is the result of
  \<^verbatim>\<open>sign_and_serialize\<close>. The call stands inside a callback of the Web3 instance, with no
  handler around it: when \<^verbatim>\<open>sign_and_serialize\<close> throws, neither \<^verbatim>\<open>resolve\<close> nor \<^verbatim>\<open>reject\<close>
  is called.
\<close>

definition resolve_serialized :: "jserror + nat list \<Rightarrow> outcome" where
  "resolve_serialized r =
     (case r of
        Inl e \<Rightarrow> Uncaught e
      | Inr serializedTx \<Rightarrow> Resolved (JString (''0x'' @ toString_hex serializedTx)))"

text \<open>
  The function given to \<^verbatim>\<open>new Promise\<close> in \<^verbatim>\<open>createSignedRawTransaction\<close>, with the outcome
  of the promise and the remote procedure calls performed. An exception thrown while the
  function itself runs (building the payload, reaching for \<^verbatim>\<open>web3.eth\<close>) rejects the
  promise.
\<close>

definition createSignedRawTransaction_promise :: "'tx libs \<Rightarrow> web3 \<Rightarrow> jsobject \<Rightarrow> outcome \<times> rpc list" where
  "createSignedRawTransaction_promise L w params =
     (case payloadData L params of
        Inl e \<Rightarrow> (Rejected e, [])
      | Inr payload \<Rightarrow>
        (if get params ''web3'' \<noteq> JWeb3
         then (Rejected (TypeError ''Cannot read property getTransactionCount of undefined''), [])
         else
           (case eth_getTransactionCount w (get params ''from'') of
              Inl err \<Rightarrow> (Rejected err, [GetTransactionCount (get params ''from'')])
            | Inr nonce \<Rightarrow>
              (case eth_getGasPrice w of
                 Inl err \<Rightarrow> (Rejected err, [GetTransactionCount (get params ''from''), GetGasPrice])
               | Inr gasPrice \<Rightarrow>
                 (if get params ''gasLimit'' \<noteq> JUndefined
                  then
                    (resolve_serialized
                       (sign_and_serialize L w params nonce payload gasPrice (get params ''gasLimit'')),
                     [GetTransactionCount (get params ''from''), GetGasPrice])
                  else
                    (case eth_estimateGas w (get params ''contractAddress'') payload of
                       Inl err \<Rightarrow>
                         (Rejected err,
                          [GetTransactionCount (get params ''from''), GetGasPrice,
                           EstimateGas (get params ''contractAddress'') payload])
                     | Inr res \<Rightarrow>
                         (resolve_serialized
                            (sign_and_serialize L w params nonce payload gasPrice res),
                          [GetTransactionCount (get params ''from''), GetGasPrice,
                           EstimateGas (get params ''contractAddress'') payload])))))))"

text \<open>
  \<^verbatim>\<open>createSignedRawTransaction(params)\<close>, where \<open>r\<close> is the reference to \<^verbatim>\<open>params\<close> and \<open>w\<close>
  is the instance behind \<^verbatim>\<open>params.web3\<close>. It returns the outcome, the remote procedure
  calls and the heap it leaves.
\<close>

definition createSignedRawTransaction :: "'tx libs \<Rightarrow> web3 \<Rightarrow> heap \<Rightarrow> ref \<Rightarrow> outcome \<times> rpc list \<times> heap" where
  "createSignedRawTransaction L w h r =
     (case Joi_validate (joi_convert L) (h ! r) schema_createSignedRawTransaction of
        Some e \<Rightarrow> (Thrown e, [], h)
      | None \<Rightarrow>
        (let h' = (if \<not> hasOwnProperty (h ! r) ''value''
                   then h[r := set_prop (h ! r) ''value'' (JNumber 0)]
                   else h);
             res = createSignedRawTransaction_promise L w (h' ! r)
         in (fst res, snd res, h')))"

text \<open>\<^verbatim>\<open>sendRawTransaction(rawTransaction, web3)\<close>.\<close>

definition sendRawTransaction :: "web3 \<Rightarrow> jsval \<Rightarrow> outcome \<times> rpc list" where
  "sendRawTransaction w rawTransaction =
     (case eth_sendRawTransaction w rawTransaction of
        Inl err \<Rightarrow> (Rejected err, [SendRawTransaction rawTransaction])
      | Inr hash \<Rightarrow> (Resolved hash, [SendRawTransaction rawTransaction]))"

text \<open>
  \<^verbatim>\<open>sendTransaction(params)\<close>, where \<open>r\<close> is the reference to \<^verbatim>\<open>params\<close>. The object given to
  \<^verbatim>\<open>createSignedRawTransaction\<close> is the new object that \<^verbatim>\<open>_.omit\<close> returns, with \<^verbatim>\<open>web3\<close>
  assigned to it. An exception thrown while \<^verbatim>\<open>createSignedRawTransaction\<close> is called, and
  a rejection of its promise, reject the promise of \<^verbatim>\<open>sendTransaction\<close>.
\<close>

definition sendTransaction :: "'tx libs \<Rightarrow> heap \<Rightarrow> ref \<Rightarrow> outcome \<times> rpc list \<times> heap" where
  "sendTransaction L h r =
     (case Joi_validate (joi_convert L) (h ! r) schema_sendTransaction of
        Some e \<Rightarrow> (Thrown e, [], h)
      | None \<Rightarrow>
        (let w = new_Web3 L (get (h ! r) ''provider'');
             a = alloc h (lodash_assign (lodash_omit (h ! r) [''provider'']) ''web3'' JWeb3);
             c = createSignedRawTransaction L w (snd a) (fst a)
         in (case fst c of
               Thrown e \<Rightarrow> (Rejected e, fst (snd c), snd (snd c))
             | Rejected e \<Rightarrow> (Rejected e, fst (snd c), snd (snd c))
             | Uncaught e \<Rightarrow> (Uncaught e, fst (snd c), snd (snd c))
             | Resolved rawTransaction \<Rightarrow>
                 (let s = sendRawTransaction w rawTransaction
                  in (fst s, fst (snd c) @ snd s, snd (snd c))))))"

text \<open>\<^verbatim>\<open>call(params)\<close>. It writes to no object, so it takes \<^verbatim>\<open>params\<close> itself.\<close>

definition call :: "'tx libs \<Rightarrow> jsobject \<Rightarrow> outcome \<times> rpc list" where
  "call L params =
     (case Joi_validate (joi_convert L) params schema_call of
        Some e \<Rightarrow> (Thrown e, [])
      | None \<Rightarrow>
        (let w = new_Web3 L (get params ''provider'')
         in (case payloadData L params of
               Inl e \<Rightarrow> (Rejected e, [])
             | Inr payload \<Rightarrow>
               (case eth_call w (get params ''contractAddress'') payload of
                  Inl err \<Rightarrow> (Rejected err, [EthCall (get params ''contractAddress'') payload])
                | Inr res \<Rightarrow> (Resolved res, [EthCall (get params ''contractAddress'') payload])))))"

text \<open>
  The object the promise of \<^verbatim>\<open>createSignedRawTransaction\<close> reads: \<^verbatim>\<open>params\<close> after the
  assignment \<^verbatim>\<open>params.value = 0\<close>, made when it has no property \<^verbatim>\<open>value\<close>.
\<close>

definition with_default_value :: "jsobject \<Rightarrow> jsobject" where
  "with_default_value params =
     (if hasOwnProperty params ''value'' then params else set_prop params ''value'' (JNumber 0))"

text \<open>
  The object \<^verbatim>\<open>sendTransaction\<close> hands to \<^verbatim>\<open>createSignedRawTransaction\<close>, as the latter
  leaves it: the copy without \<^verbatim>\<open>provider\<close>, with \<^verbatim>\<open>web3\<close>, and with \<^verbatim>\<open>value\<close> set to 0
  when the caller gave none.
\<close>

definition send_copy :: "jsobject \<Rightarrow> jsobject" where
  "send_copy params =
     (let c = lodash_assign (lodash_omit params [''provider'']) ''web3'' JWeb3
      in if hasOwnProperty c ''value'' then c else set_prop c ''value'' (JNumber 0))"

section \<open>Predicates of the specification\<close>

text \<open>
  A required key is missing when its value is undefined; a key has the wrong shape when
  its value is defined and not of the key's type.
\<close>

definition missing_required :: "joi_schema \<Rightarrow> jsobject \<Rightarrow> bool" where
  "missing_required schema obj =
     list_ex (\<lambda>e. case e of (k, t, req) \<Rightarrow> req \<and> get obj k = JUndefined) schema"

definition wrong_shape :: "(joi_type \<Rightarrow> string \<Rightarrow> bool) \<Rightarrow> joi_schema \<Rightarrow> jsobject \<Rightarrow> bool" where
  "wrong_shape conv schema obj =
     list_ex (\<lambda>e. case e of (k, t, req) \<Rightarrow>
                get obj k \<noteq> JUndefined \<and> \<not> joi_accepts conv t (get obj k)) schema"

text \<open>No descriptor of the interface has the name asked for.\<close>

definition matches_no_descriptor :: "jsval \<Rightarrow> jsval \<Rightarrow> bool" where
  "matches_no_descriptor abi fname =
     (case abi of JArray ds \<Rightarrow> \<not> list_ex (\<lambda>d. has_name d fname) ds | _ \<Rightarrow> True)"






section \<open>A remote node and libraries to run the code on\<close>

text \<open>
  A node that answers every request, and libraries that behave as simply as the real
  ones allow: Joi converts no string, the encoder's payload records the descriptor and
  the arguments, the transaction object is the raw transaction, \<^verbatim>\<open>Buffer.from\<close> decodes
  the hex digits at the front of the string, signing needs a key of 32 bytes.
\<close>

definition demo_web3 :: web3 where
  "demo_web3 =
     \<lparr> eth_getTransactionCount = (\<lambda>a. Inr (JNumber 0)),
       eth_getGasPrice = Inr (JNumber 20000000000),
       eth_estimateGas = (\<lambda>a d. Inr (JNumber 21000)),
       eth_sendRawTransaction = (\<lambda>t. Inr (JString ''0xhash'')),
       eth_call = (\<lambda>a d. Inr (JString ''0x706f6e67'')),
       toHex_other = (\<lambda>v. v) \<rparr>"

definition demo_libs :: "rawTx libs" where
  "demo_libs =
     \<lparr> joi_convert = (\<lambda>t s. False),
       new_Web3 = (\<lambda>provider. demo_web3),
       abi_toPayload = (\<lambda>d args. Inr (JArray [d, args])),
       new_EthereumTx = (\<lambda>t. Inr t),
       buffer_from_hex =
         (\<lambda>v. case v of
                JString s \<Rightarrow>
                  Inr (replicate
                         (length (takeWhile (\<lambda>c. c \<in> set ''0123456789abcdefABCDEF'') s) div 2) 0)
              | _ \<Rightarrow> Inl (TypeError ''not a string'')),
       tx_sign = (\<lambda>t key. if length key = 32 then Inr t else Inl (LibError 1)),
       tx_serialize = (\<lambda>t. [248, 1]) \<rparr>"

definition demo_abi :: jsval where
  "demo_abi =
     JArray [JObject [(''name'', JString ''ping''), (''inputs'', JArray [])],
             JObject [(''name'', JString ''double''), (''inputs'', JArray [JString ''uint256''])],
             JObject [(''name'', JString ''double''), (''inputs'', JArray [JString ''int8''])]]"

definition demo_key :: string where
  "demo_key = ''4c0883a69102937d6231471b5dbb6204fe5129617082792ae468d01a3f362318''"

definition demo_params :: jsobject where
  "demo_params =
     [(''from'', JString ''0x43aaE535BE7239c576FA3D152E14b1BC03fF4818''),
      (''privateKey'', JString demo_key),
      (''contractAddress'', JString ''0x13ab619da719796aa7a97bf046a51528ac11bd0f''),
      (''abi'', demo_abi),
      (''functionName'', JString ''double''),
      (''functionArguments'', JArray [JNumber 7]),
      (''provider'', JString ''https://node.example'')]"

definition demo_call_params :: jsobject where
  "demo_call_params =
     [(''contractAddress'', JString ''0x13ab619da719796aa7a97bf046a51528ac11bd0f''),
      (''abi'', demo_abi),
      (''functionName'', JString ''ping''),
      (''functionArguments'', JArray []),
      (''provider'', JString ''https://node.example'')]"

definition demo_raw_params :: jsobject where
  "demo_raw_params = lodash_assign (lodash_omit demo_params [''provider'']) ''web3'' JWeb3"

section \<open>Facts about objects and validation\<close>

declare hex_of_nat.simps [simp del]

lemma get_set_prop: "get (set_prop obj k v) k' = (if k' = k then v else get obj k')"
  by (simp add: get_def set_prop_def update_conv')

lemma map_of_omit:
  "map_of (lodash_omit obj ks) k = (if k \<in> set ks then None else map_of obj k)"
  unfolding lodash_omit_def by (induction obj) auto

lemma get_omit: "get (lodash_omit obj ks) k = (if k \<in> set ks then JUndefined else get obj k)"
  by (simp add: get_def map_of_omit)

lemma keys_set_prop: "set (map fst (set_prop obj k v)) = insert k (set (map fst obj))"
  by (simp add: set_prop_def dom_update)

lemma keys_omit: "set (map fst (lodash_omit obj ks)) = set (map fst obj) - set ks"
  unfolding lodash_omit_def by (induction obj) auto




lemma Joi_validate_None_iff:
  "Joi_validate conv obj s = None \<longleftrightarrow>
     list_all (joi_key_ok conv obj) s \<and> list_all (\<lambda>k. k \<in> set (map fst s)) (map fst obj)"
proof -
  have "Joi_validate conv obj s = None \<longleftrightarrow>
          filter (\<lambda>e. \<not> joi_key_ok conv obj e) s = [] \<and>
          filter (\<lambda>k. k \<notin> set (map fst s)) (map fst obj) = []"
    unfolding Joi_validate_def by (simp split: list.splits)
  then show ?thesis
    by (simp add: filter_empty_conv list_all_iff)
qed

lemma Joi_validate_Some: "Joi_validate conv obj s = Some e \<Longrightarrow> \<exists>k. e = ValidationError k"
  unfolding Joi_validate_def by (auto split: list.splits)

lemma Joi_validate_key_fails:
  "\<not> list_all (joi_key_ok conv obj) s \<Longrightarrow> \<exists>k. Joi_validate conv obj s = Some (ValidationError k)"
proof -
  assume "\<not> list_all (joi_key_ok conv obj) s"
  then have "filter (\<lambda>e. \<not> joi_key_ok conv obj e) s \<noteq> []"
    by (simp add: filter_empty_conv list_all_iff)
  then show ?thesis
    unfolding Joi_validate_def by (auto split: list.splits)
qed

lemma missing_required_fails:
  "missing_required s obj \<Longrightarrow> \<not> list_all (joi_key_ok conv obj) s"
  unfolding missing_required_def joi_key_ok_def list_all_iff list_ex_iff by auto

lemma wrong_shape_fails:
  "wrong_shape conv s obj \<Longrightarrow> \<not> list_all (joi_key_ok conv obj) s"
  unfolding wrong_shape_def joi_key_ok_def list_all_iff list_ex_iff by fastforce

lemma valid_send_valid_create:
  assumes "Joi_validate conv obj schema_sendTransaction = None"
  shows "Joi_validate conv (lodash_assign (lodash_omit obj [''provider'']) ''web3'' JWeb3)
           schema_createSignedRawTransaction = None"
proof -
  let ?o = "lodash_assign (lodash_omit obj [''provider'']) ''web3'' JWeb3"
  from assms have k: "list_all (joi_key_ok conv obj) schema_sendTransaction"
    and u: "list_all (\<lambda>k. k \<in> set (map fst schema_sendTransaction)) (map fst obj)"
    by (simp_all add: Joi_validate_None_iff)
  have g: "\<And>k. k \<noteq> ''provider'' \<Longrightarrow> k \<noteq> ''web3'' \<Longrightarrow> get ?o k = get obj k"
    by (simp add: lodash_assign_def get_set_prop get_omit)
  have w: "get ?o ''web3'' = JWeb3"
    by (simp add: lodash_assign_def get_set_prop)
  from k have "list_all (joi_key_ok conv ?o) schema_createSignedRawTransaction"
    by (auto simp: schema_sendTransaction_def schema_createSignedRawTransaction_def
        joi_key_ok_def g w split: if_splits)
  moreover have "list_all (\<lambda>k. k \<in> set (map fst schema_createSignedRawTransaction)) (map fst ?o)"
    using u unfolding list_all_iff lodash_assign_def keys_set_prop keys_omit
    by (auto simp: schema_sendTransaction_def schema_createSignedRawTransaction_def)
  ultimately show ?thesis by (simp add: Joi_validate_None_iff)
qed

section \<open>Validation comes first\<close>

text \<open>
  C5. When \<^verbatim>\<open>params\<close> misses a required field or has a field of the wrong shape,
  \<^verbatim>\<open>sendTransaction\<close> and \<^verbatim>\<open>call\<close> fail with Joi's validation error, thrown before a
  promise exists: no remote procedure call is made, no later stage runs, and the heap is
  as it was.
\<close>

theorem C5_validation_error_before_network:
  "(missing_required schema_sendTransaction (h ! r) \<or>
      wrong_shape (joi_convert L) schema_sendTransaction (h ! r)
    \<longrightarrow> (\<exists>k. sendTransaction L h r = (Thrown (ValidationError k), [], h)))
   \<and> (missing_required schema_call params \<or>
      wrong_shape (joi_convert L) schema_call params
    \<longrightarrow> (\<exists>k. call L params = (Thrown (ValidationError k), [])))"
proof (intro conjI impI)
  assume "missing_required schema_sendTransaction (h ! r) \<or>
      wrong_shape (joi_convert L) schema_sendTransaction (h ! r)"
  then have "\<not> list_all (joi_key_ok (joi_convert L) (h ! r)) schema_sendTransaction"
    using missing_required_fails wrong_shape_fails by blast
  then obtain k where
    "Joi_validate (joi_convert L) (h ! r) schema_sendTransaction = Some (ValidationError k)"
    using Joi_validate_key_fails by blast
  then show "\<exists>k. sendTransaction L h r = (Thrown (ValidationError k), [], h)"
    by (simp add: sendTransaction_def)
next
  assume "missing_required schema_call params \<or>
      wrong_shape (joi_convert L) schema_call params"
  then have "\<not> list_all (joi_key_ok (joi_convert L) params) schema_call"
    using missing_required_fails wrong_shape_fails by blast
  then obtain k where
    "Joi_validate (joi_convert L) params schema_call = Some (ValidationError k)"
    using Joi_validate_key_fails by blast
  then show "\<exists>k. call L params = (Thrown (ValidationError k), [])"
    by (simp add: call_def)
qed

lemma demo_missing_from:
  "missing_required schema_sendTransaction (lodash_omit demo_params [''from''])"
  by (simp add: missing_required_def schema_sendTransaction_def get_omit)

lemma demo_call_wrong_abi:
  "wrong_shape (joi_convert demo_libs) schema_call (set_prop demo_call_params ''abi'' (JNumber 5))"
  by (simp add: wrong_shape_def schema_call_def get_set_prop)

theorem C5_validation_error_before_network_witness:
  "missing_required schema_sendTransaction ([lodash_omit demo_params [''from'']] ! 0) \<and>
   wrong_shape (joi_convert demo_libs) schema_call
     (set_prop demo_call_params ''abi'' (JNumber 5)) \<and>
   (\<exists>k. sendTransaction demo_libs [lodash_omit demo_params [''from'']] 0
          = (Thrown (ValidationError k), [], [lodash_omit demo_params [''from'']])) \<and>
   (\<exists>k. call demo_libs (set_prop demo_call_params ''abi'' (JNumber 5))
          = (Thrown (ValidationError k), []))"
  using C5_validation_error_before_network
          [of "[lodash_omit demo_params [''from'']]" 0 demo_libs
              "set_prop demo_call_params ''abi'' (JNumber 5)"]
        demo_missing_from demo_call_wrong_abi
  by simp

section \<open>Facts about the lookup and the two promises\<close>

lemma has_name_object:
  "has_name d fname \<longleftrightarrow> (\<exists>props. d = JObject props \<and> map_of props ''name'' = Some fname)"
  unfolding has_name_def by (cases d) auto

lemma lodash_find_none:
  "matches_no_descriptor abi fname \<Longrightarrow> lodash_find abi fname = JUndefined"
proof (cases abi)
  case (JArray ds)
  assume "matches_no_descriptor abi fname"
  with JArray have "List.find (\<lambda>d. has_name d fname) ds = None"
    by (simp add: matches_no_descriptor_def list_ex_iff find_None_iff)
  with JArray show ?thesis
    by (simp add: lodash_find_def)
qed (simp_all add: lodash_find_def)

lemma find_first:
  "list_all (\<lambda>x. \<not> P x) pre \<Longrightarrow> P d \<Longrightarrow> List.find P (pre @ d # post) = Some d"
  by (induction pre) auto

lemma lodash_find_first:
  "list_all (\<lambda>x. \<not> has_name x fname) pre \<Longrightarrow> has_name d fname \<Longrightarrow>
   lodash_find (JArray (pre @ d # post)) fname = d"
  unfolding lodash_find_def by (simp add: find_first)

lemma payloadData_none:
  "matches_no_descriptor (get params ''abi'') (get params ''functionName'') \<Longrightarrow>
   payloadData L params = Inl (TypeError ''Cannot read property inputs of undefined'')"
  by (simp add: payloadData_def lodash_find_none SolidityFunction_toPayload_def)

lemma payloadData_cong:
  "get p ''abi'' = get q ''abi'' \<Longrightarrow> get p ''functionName'' = get q ''functionName'' \<Longrightarrow>
   get p ''functionArguments'' = get q ''functionArguments'' \<Longrightarrow>
   payloadData L p = payloadData L q"
  by (simp add: payloadData_def)

text \<open>The object the promise of \<^verbatim>\<open>createSignedRawTransaction\<close> works on.\<close>

lemma createSignedRawTransaction_valid:
  assumes "Joi_validate (joi_convert L) (h ! r) schema_createSignedRawTransaction = None"
    and "r < length h"
  shows "createSignedRawTransaction L w h r =
           (if hasOwnProperty (h ! r) ''value''
            then (fst (createSignedRawTransaction_promise L w (h ! r)),
                  snd (createSignedRawTransaction_promise L w (h ! r)), h)
            else (fst (createSignedRawTransaction_promise L w (set_prop (h ! r) ''value'' (JNumber 0))),
                  snd (createSignedRawTransaction_promise L w (set_prop (h ! r) ''value'' (JNumber 0))),
                  h[r := set_prop (h ! r) ''value'' (JNumber 0)]))"
  using assms by (simp add: createSignedRawTransaction_def Let_def)


lemma promise_lookup_fails:
  "payloadData L params = Inl e \<Longrightarrow>
   createSignedRawTransaction_promise L w params = (Rejected e, [])"
  by (simp add: createSignedRawTransaction_promise_def)

text \<open>
  \<^verbatim>\<open>sendTransaction\<close> on a valid object: the copy passes the validation of
  \<^verbatim>\<open>createSignedRawTransaction\<close> and is appended to the heap as \<open>send_copy\<close> describes it.
\<close>

lemma get_send_copy:
  "k \<noteq> ''provider'' \<Longrightarrow> k \<noteq> ''web3'' \<Longrightarrow> k \<noteq> ''value'' \<Longrightarrow> get (send_copy p) k = get p k"
  by (simp add: send_copy_def Let_def lodash_assign_def get_set_prop get_omit)

lemma sendTransaction_valid:
  assumes "Joi_validate (joi_convert L) (h ! r) schema_sendTransaction = None"
  shows "sendTransaction L h r =
     (let w = new_Web3 L (get (h ! r) ''provider'');
          res = createSignedRawTransaction_promise L w (send_copy (h ! r))
      in (case fst res of
            Thrown e \<Rightarrow> (Rejected e, snd res, h @ [send_copy (h ! r)])
          | Rejected e \<Rightarrow> (Rejected e, snd res, h @ [send_copy (h ! r)])
          | Uncaught e \<Rightarrow> (Uncaught e, snd res, h @ [send_copy (h ! r)])
          | Resolved rawTransaction \<Rightarrow>
              (fst (sendRawTransaction w rawTransaction),
               snd res @ snd (sendRawTransaction w rawTransaction),
               h @ [send_copy (h ! r)])))"
proof -
  let ?c = "lodash_assign (lodash_omit (h ! r) [''provider'']) ''web3'' JWeb3"
  have v: "Joi_validate (joi_convert L) ((h @ [?c]) ! length h) schema_createSignedRawTransaction = None"
    using valid_send_valid_create [OF assms] by simp
  have c: "createSignedRawTransaction L w (h @ [?c]) (length h) =
             (fst (createSignedRawTransaction_promise L w (send_copy (h ! r))),
              snd (createSignedRawTransaction_promise L w (send_copy (h ! r))),
              h @ [send_copy (h ! r)])" for w
    using createSignedRawTransaction_valid [OF v, of w]
    by (simp add: send_copy_def Let_def)
  show ?thesis
    using assms
    by (cases "fst (createSignedRawTransaction_promise L (new_Web3 L (get (h ! r) ''provider''))
                     (send_copy (h ! r)))")
       (simp_all add: sendTransaction_def alloc_def c Let_def)
qed

section \<open>The lookup of the function descriptor\<close>

text \<open>
  C3. When no descriptor of \<^verbatim>\<open>abi\<close> has the name \<^verbatim>\<open>functionName\<close>, a call that passes
  validation fails at the lookup: \<^verbatim>\<open>call\<close>, \<^verbatim>\<open>createSignedRawTransaction\<close> and
  \<^verbatim>\<open>sendTransaction\<close> return a promise that is rejected with the error raised by
  constructing the function object from \<^verbatim>\<open>undefined\<close>, and the list of remote procedure
  calls is empty.
\<close>

theorem C3_unknown_function_fails_before_network:
  assumes "matches_no_descriptor (get (h ! r) ''abi'') (get (h ! r) ''functionName'')"
    and "r < length h"
  shows
    "(Joi_validate (joi_convert L) (h ! r) schema_call = None \<longrightarrow>
        (\<exists>m. call L (h ! r) = (Rejected (TypeError m), []))) \<and>
     (Joi_validate (joi_convert L) (h ! r) schema_createSignedRawTransaction = None \<longrightarrow>
        (\<exists>m h'. createSignedRawTransaction L w h r = (Rejected (TypeError m), [], h'))) \<and>
     (Joi_validate (joi_convert L) (h ! r) schema_sendTransaction = None \<longrightarrow>
        (\<exists>m h'. sendTransaction L h r = (Rejected (TypeError m), [], h')))"
proof (intro conjI impI)
  assume "Joi_validate (joi_convert L) (h ! r) schema_call = None"
  then show "\<exists>m. call L (h ! r) = (Rejected (TypeError m), [])"
    using payloadData_none [OF assms(1), of L] by (simp add: call_def)
next
  assume v: "Joi_validate (joi_convert L) (h ! r) schema_createSignedRawTransaction = None"
  have "payloadData L (set_prop (h ! r) ''value'' (JNumber 0)) = payloadData L (h ! r)"
    by (rule payloadData_cong) (simp_all add: get_set_prop)
  then show "\<exists>m h'. createSignedRawTransaction L w h r = (Rejected (TypeError m), [], h')"
    using payloadData_none [OF assms(1), of L]
    by (simp add: createSignedRawTransaction_valid [OF v assms(2)] promise_lookup_fails)
next
  assume v: "Joi_validate (joi_convert L) (h ! r) schema_sendTransaction = None"
  have "payloadData L (send_copy (h ! r)) = payloadData L (h ! r)"
    by (rule payloadData_cong) (simp_all add: get_send_copy)
  then show "\<exists>m h'. sendTransaction L h r = (Rejected (TypeError m), [], h')"
    using payloadData_none [OF assms(1), of L]
    by (simp add: sendTransaction_valid [OF v] promise_lookup_fails Let_def)
qed



lemma demo_call_params_valid:
  "Joi_validate (joi_convert demo_libs) demo_call_params schema_call = None"
  by (simp add: Joi_validate_def joi_key_ok_def schema_call_def demo_call_params_def
      get_def demo_abi_def)

lemma demo_unknown_valid:
  "Joi_validate (joi_convert demo_libs)
     (set_prop demo_params ''functionName'' (JString ''nope'')) schema_sendTransaction = None"
  "Joi_validate (joi_convert demo_libs)
     (set_prop demo_raw_params ''functionName'' (JString ''nope''))
     schema_createSignedRawTransaction = None"
  "Joi_validate (joi_convert demo_libs)
     (set_prop demo_call_params ''functionName'' (JString ''nope'')) schema_call = None"
  by (simp_all add: Joi_validate_def joi_key_ok_def schema_sendTransaction_def
      schema_createSignedRawTransaction_def schema_call_def demo_params_def demo_raw_params_def
      demo_call_params_def lodash_assign_def lodash_omit_def set_prop_def get_def demo_abi_def
      demo_key_def)

lemma demo_unknown_no_match:
  "get p ''abi'' = demo_abi \<Longrightarrow>
   matches_no_descriptor (get (set_prop p ''functionName'' (JString ''nope'')) ''abi'')
     (get (set_prop p ''functionName'' (JString ''nope'')) ''functionName'')"
  by (simp add: get_set_prop matches_no_descriptor_def demo_abi_def has_name_def)

lemma demo_abi_get:
  "get demo_params ''abi'' = demo_abi"
  "get demo_raw_params ''abi'' = demo_abi"
  "get demo_call_params ''abi'' = demo_abi"
  by (simp_all add: demo_params_def demo_raw_params_def demo_call_params_def get_def
      lodash_assign_def lodash_omit_def set_prop_def)

theorem C3_unknown_function_fails_before_network_witness:
  "(\<exists>m. call demo_libs (set_prop demo_call_params ''functionName'' (JString ''nope''))
          = (Rejected (TypeError m), [])) \<and>
   (\<exists>m h'. createSignedRawTransaction demo_libs demo_web3
              [set_prop demo_raw_params ''functionName'' (JString ''nope'')] 0
          = (Rejected (TypeError m), [], h')) \<and>
   (\<exists>m h'. sendTransaction demo_libs
              [set_prop demo_params ''functionName'' (JString ''nope'')] 0
          = (Rejected (TypeError m), [], h'))"
  using C3_unknown_function_fails_before_network
          [of "[set_prop demo_call_params ''functionName'' (JString ''nope'')]" 0 demo_libs demo_web3]
        C3_unknown_function_fails_before_network
          [of "[set_prop demo_raw_params ''functionName'' (JString ''nope'')]" 0 demo_libs demo_web3]
        C3_unknown_function_fails_before_network
          [of "[set_prop demo_params ''functionName'' (JString ''nope'')]" 0 demo_libs demo_web3]
        demo_unknown_valid demo_unknown_no_match demo_abi_get
  by simp

text \<open>
  C8. The descriptor is looked up by its name: a descriptor matches when it is an object
  whose property \<^verbatim>\<open>name\<close> is \<^verbatim>\<open>functionName\<close>. When several descriptors of \<^verbatim>\<open>abi\<close> match,
  the lookup resolves to the first of them in array order, and the payload, of \<^verbatim>\<open>call\<close> and
  of the promise of \<^verbatim>\<open>createSignedRawTransaction\<close> alike, is what the encoder builds from
  that descriptor.
\<close>

theorem C8_lookup_first_match:
  assumes "get params ''abi'' = JArray (pre @ d # post)"
    and "list_all (\<lambda>x. \<not> has_name x (get params ''functionName'')) pre"
    and "has_name d (get params ''functionName'')"
  shows
    "(\<exists>props. d = JObject props \<and> get props ''name'' = get params ''functionName'') \<and>
     lodash_find (get params ''abi'') (get params ''functionName'') = d \<and>
     payloadData L params = abi_toPayload L d (get params ''functionArguments'') \<and>
     (Joi_validate (joi_convert L) params schema_call = None \<longrightarrow>
        call L params =
          (case abi_toPayload L d (get params ''functionArguments'') of
             Inl e \<Rightarrow> (Rejected e, [])
           | Inr payload \<Rightarrow>
               (case eth_call (new_Web3 L (get params ''provider''))
                       (get params ''contractAddress'') payload of
                  Inl err \<Rightarrow> (Rejected err, [EthCall (get params ''contractAddress'') payload])
                | Inr res \<Rightarrow> (Resolved res, [EthCall (get params ''contractAddress'') payload])))) \<and>
     (\<forall>e. abi_toPayload L d (get params ''functionArguments'') = Inl e \<longrightarrow>
        createSignedRawTransaction_promise L w params = (Rejected e, [])) \<and>
     (\<forall>payload nonce gasPrice.
        abi_toPayload L d (get params ''functionArguments'') = Inr payload \<longrightarrow>
        get params ''web3'' = JWeb3 \<longrightarrow>
        eth_getTransactionCount w (get params ''from'') = Inr nonce \<longrightarrow>
        eth_getGasPrice w = Inr gasPrice \<longrightarrow>
        get params ''gasLimit'' = JUndefined \<longrightarrow>
        snd (createSignedRawTransaction_promise L w params) =
          [GetTransactionCount (get params ''from''), GetGasPrice,
           EstimateGas (get params ''contractAddress'') payload])"
proof -
  have f: "lodash_find (get params ''abi'') (get params ''functionName'') = d"
    using assms by (simp add: lodash_find_first)
  have o: "\<exists>props. d = JObject props \<and> get props ''name'' = get params ''functionName''"
    using assms(3) by (auto simp: has_name_object get_def)
  then have u: "d \<noteq> JUndefined" by auto
  have p: "payloadData L params = abi_toPayload L d (get params ''functionArguments'')"
    by (simp add: payloadData_def f SolidityFunction_toPayload_def u)
  have c: "Joi_validate (joi_convert L) params schema_call = None \<longrightarrow>
        call L params =
          (case abi_toPayload L d (get params ''functionArguments'') of
             Inl e \<Rightarrow> (Rejected e, [])
           | Inr payload \<Rightarrow>
               (case eth_call (new_Web3 L (get params ''provider''))
                       (get params ''contractAddress'') payload of
                  Inl err \<Rightarrow> (Rejected err, [EthCall (get params ''contractAddress'') payload])
                | Inr res \<Rightarrow> (Resolved res, [EthCall (get params ''contractAddress'') payload])))"
    by (simp add: call_def p Let_def)
  have r: "\<forall>e. abi_toPayload L d (get params ''functionArguments'') = Inl e \<longrightarrow>
        createSignedRawTransaction_promise L w params = (Rejected e, [])"
    by (simp add: promise_lookup_fails p)
  have e: "\<forall>payload nonce gasPrice.
        abi_toPayload L d (get params ''functionArguments'') = Inr payload \<longrightarrow>
        get params ''web3'' = JWeb3 \<longrightarrow>
        eth_getTransactionCount w (get params ''from'') = Inr nonce \<longrightarrow>
        eth_getGasPrice w = Inr gasPrice \<longrightarrow>
        get params ''gasLimit'' = JUndefined \<longrightarrow>
        snd (createSignedRawTransaction_promise L w params) =
          [GetTransactionCount (get params ''from''), GetGasPrice,
           EstimateGas (get params ''contractAddress'') payload]"
    by (auto simp: createSignedRawTransaction_promise_def p split: sum.splits)
  from o f p c r e show ?thesis by blast
qed

theorem C8_lookup_first_match_witness:
  "lodash_find (get demo_raw_params ''abi'') (get demo_raw_params ''functionName'')
     = JObject [(''name'', JString ''double''), (''inputs'', JArray [JString ''uint256''])] \<and>
   call demo_libs (set_prop (set_prop demo_call_params ''functionName'' (JString ''double''))
                     ''functionArguments'' (JArray [JNumber 7]))
     = (Resolved (JString ''0x706f6e67''),
        [EthCall (JString ''0x13ab619da719796aa7a97bf046a51528ac11bd0f'')
           (JArray [JObject [(''name'', JString ''double''),
                             (''inputs'', JArray [JString ''uint256''])],
                    JArray [JNumber 7]])]) \<and>
   snd (createSignedRawTransaction_promise demo_libs demo_web3 demo_raw_params)
     = [GetTransactionCount (JString ''0x43aaE535BE7239c576FA3D152E14b1BC03fF4818''), GetGasPrice,
        EstimateGas (JString ''0x13ab619da719796aa7a97bf046a51528ac11bd0f'')
          (JArray [JObject [(''name'', JString ''double''),
                            (''inputs'', JArray [JString ''uint256''])],
                   JArray [JNumber 7]])]"
proof -
  let ?ping = "JObject [(''name'', JString ''ping''), (''inputs'', JArray [])]"
  let ?d = "JObject [(''name'', JString ''double''), (''inputs'', JArray [JString ''uint256''])]"
  let ?d2 = "JObject [(''name'', JString ''double''), (''inputs'', JArray [JString ''int8''])]"
  let ?c = "set_prop (set_prop demo_call_params ''functionName'' (JString ''double''))
              ''functionArguments'' (JArray [JNumber 7])"
  have g: "get demo_raw_params ''abi'' = JArray ([?ping] @ ?d # [?d2])"
    "get demo_raw_params ''functionName'' = JString ''double''"
    "get demo_raw_params ''functionArguments'' = JArray [JNumber 7]"
    "get demo_raw_params ''web3'' = JWeb3"
    "get demo_raw_params ''gasLimit'' = JUndefined"
    "get demo_raw_params ''from'' = JString ''0x43aaE535BE7239c576FA3D152E14b1BC03fF4818''"
    "get demo_raw_params ''contractAddress'' = JString ''0x13ab619da719796aa7a97bf046a51528ac11bd0f''"
    by (simp_all add: demo_raw_params_def demo_params_def demo_abi_def get_def
        lodash_assign_def lodash_omit_def set_prop_def)
  have gc: "get ?c ''abi'' = JArray ([?ping] @ ?d # [?d2])"
    "get ?c ''functionName'' = JString ''double''"
    "get ?c ''functionArguments'' = JArray [JNumber 7]"
    "get ?c ''provider'' = JString ''https://node.example''"
    "get ?c ''contractAddress'' = JString ''0x13ab619da719796aa7a97bf046a51528ac11bd0f''"
    by (simp_all add: demo_call_params_def demo_abi_def get_def set_prop_def)
  have vc: "Joi_validate (joi_convert demo_libs) ?c schema_call = None"
    by (simp add: Joi_validate_def joi_key_ok_def schema_call_def demo_call_params_def
        set_prop_def get_def demo_abi_def)
  have n: "list_all (\<lambda>x. \<not> has_name x (JString ''double'')) [?ping]"
    "has_name ?d (JString ''double'')"
    by (simp_all add: has_name_def)
  have r: "abi_toPayload demo_libs ?d (JArray [JNumber 7]) = Inr (JArray [?d, JArray [JNumber 7]])"
    "eth_getTransactionCount demo_web3 (JString ''0x43aaE535BE7239c576FA3D152E14b1BC03fF4818'')
       = Inr (JNumber 0)"
    "eth_getGasPrice demo_web3 = Inr (JNumber 20000000000)"
    "eth_call (new_Web3 demo_libs (JString ''https://node.example''))
       (JString ''0x13ab619da719796aa7a97bf046a51528ac11bd0f'') (JArray [?d, JArray [JNumber 7]])
       = Inr (JString ''0x706f6e67'')"
    by (simp_all add: demo_libs_def demo_web3_def)
  show ?thesis
    using C8_lookup_first_match [of demo_raw_params "[?ping]" ?d "[?d2]" demo_libs demo_web3]
          C8_lookup_first_match [of ?c "[?ping]" ?d "[?d2]" demo_libs demo_web3]
          g gc vc n r
    by simp
qed

section \<open>The gas limit\<close>

lemma promise_default_value:
  "\<not> hasOwnProperty p ''value'' \<Longrightarrow> k \<noteq> ''value'' \<Longrightarrow>
   get (set_prop p ''value'' v) k = get p k"
  by (simp add: get_set_prop)


lemma promise_supplied:
  "\<lbrakk>get params ''gasLimit'' \<noteq> JUndefined; payloadData L params = Inr payload;
    get params ''web3'' = JWeb3;
    eth_getTransactionCount w (get params ''from'') = Inr nonce;
    eth_getGasPrice w = Inr gasPrice\<rbrakk> \<Longrightarrow>
   createSignedRawTransaction_promise L w params =
     (resolve_serialized
        (sign_and_serialize L w params nonce payload gasPrice (get params ''gasLimit'')),
      [GetTransactionCount (get params ''from''), GetGasPrice])"
  by (simp add: createSignedRawTransaction_promise_def)

lemma promise_estimated:
  "\<lbrakk>get params ''gasLimit'' = JUndefined; payloadData L params = Inr payload;
    get params ''web3'' = JWeb3;
    eth_getTransactionCount w (get params ''from'') = Inr nonce;
    eth_getGasPrice w = Inr gasPrice\<rbrakk> \<Longrightarrow>
   createSignedRawTransaction_promise L w params =
     (case eth_estimateGas w (get params ''contractAddress'') payload of
        Inl err \<Rightarrow> Rejected err
      | Inr res \<Rightarrow>
          resolve_serialized (sign_and_serialize L w params nonce payload gasPrice res),
      [GetTransactionCount (get params ''from''), GetGasPrice,
       EstimateGas (get params ''contractAddress'') payload])"
  by (simp add: createSignedRawTransaction_promise_def split: sum.splits)

lemma get_with_default_value:
  "k \<noteq> ''value'' \<Longrightarrow> get (with_default_value p) k = get p k"
  by (simp add: with_default_value_def get_set_prop)


lemma createSignedRawTransaction_valid_default:
  assumes "Joi_validate (joi_convert L) (h ! r) schema_createSignedRawTransaction = None"
    and "r < length h"
  shows "createSignedRawTransaction L w h r =
           (fst (createSignedRawTransaction_promise L w (with_default_value (h ! r))),
            snd (createSignedRawTransaction_promise L w (with_default_value (h ! r))),
            h[r := with_default_value (h ! r)])"
  using assms by (simp add: createSignedRawTransaction_valid with_default_value_def)





lemma demo_payloadData:
  "get p ''abi'' = demo_abi \<Longrightarrow> get p ''functionName'' = JString ''double'' \<Longrightarrow>
   payloadData demo_libs p =
     Inr (JArray [JObject [(''name'', JString ''double''),
                           (''inputs'', JArray [JString ''uint256''])],
                  get p ''functionArguments''])"
  by (simp add: payloadData_def lodash_find_def demo_abi_def has_name_def
      SolidityFunction_toPayload_def demo_libs_def)

lemma demo_raw_get:
  "get demo_raw_params ''abi'' = demo_abi"
  "get demo_raw_params ''functionName'' = JString ''double''"
  "get demo_raw_params ''functionArguments'' = JArray [JNumber 7]"
  "get demo_raw_params ''web3'' = JWeb3"
  "get demo_raw_params ''gasLimit'' = JUndefined"
  "get demo_raw_params ''value'' = JUndefined"
  "get demo_raw_params ''privateKey'' = JString demo_key"
  "get demo_raw_params ''from'' = JString ''0x43aaE535BE7239c576FA3D152E14b1BC03fF4818''"
  "get demo_raw_params ''contractAddress'' = JString ''0x13ab619da719796aa7a97bf046a51528ac11bd0f''"
  by (simp_all add: demo_raw_params_def demo_params_def get_def
      lodash_assign_def lodash_omit_def set_prop_def)


lemma demo_web3_reads:
  "eth_getTransactionCount demo_web3 a = Inr (JNumber 0)"
  "eth_getGasPrice demo_web3 = Inr (JNumber 20000000000)"
  "eth_estimateGas demo_web3 a d = Inr (JNumber 21000)"
  "eth_sendRawTransaction demo_web3 t = Inr (JString ''0xhash'')"
  "new_Web3 demo_libs u = demo_web3"
  by (simp_all add: demo_web3_def demo_libs_def)


section \<open>The default of \<^verbatim>\<open>value\<close>\<close>


lemma sign_and_serialize_cong:
  assumes "\<And>k. get p k = get q k"
  shows "sign_and_serialize L w p nonce payload gasPrice gasLimit =
         sign_and_serialize L w q nonce payload gasPrice gasLimit"
proof -
  have e: "get p = get q" by (rule ext) (rule assms)
  show ?thesis
    unfolding sign_and_serialize_def build_rawTx_def e ..
qed











lemma demo_get:
  "get demo_params ''abi'' = demo_abi"
  "get demo_params ''functionName'' = JString ''double''"
  "get demo_params ''functionArguments'' = JArray [JNumber 7]"
  "get demo_params ''provider'' = JString ''https://node.example''"
  "get demo_params ''gasLimit'' = JUndefined"
  "get demo_params ''value'' = JUndefined"
  "get demo_params ''privateKey'' = JString demo_key"
  "get demo_params ''from'' = JString ''0x43aaE535BE7239c576FA3D152E14b1BC03fF4818''"
  "get demo_params ''contractAddress'' = JString ''0x13ab619da719796aa7a97bf046a51528ac11bd0f''"
  by (simp_all add: demo_params_def get_def)


lemma get_send_copy_web3: "get (send_copy p) ''web3'' = JWeb3"
  by (simp add: send_copy_def Let_def lodash_assign_def get_set_prop)





section \<open>The hex strings handed to the codec\<close>
















section \<open>What happens to the caller's object\<close>




section \<open>Failures of the stages\<close>

text \<open>
  A failure of a remote read rejects the promise of \<^verbatim>\<open>createSignedRawTransaction\<close> with the
  node's error; the reads made so far were made once, and nothing read so far is part of
  the outcome.
\<close>

lemma promise_nonce_fails:
  "\<lbrakk>payloadData L params = Inr payload; get params ''web3'' = JWeb3;
    eth_getTransactionCount w (get params ''from'') = Inl err\<rbrakk> \<Longrightarrow>
   createSignedRawTransaction_promise L w params =
     (Rejected err, [GetTransactionCount (get params ''from'')])"
  by (simp add: createSignedRawTransaction_promise_def)

lemma promise_gasPrice_fails:
  "\<lbrakk>payloadData L params = Inr payload; get params ''web3'' = JWeb3;
    eth_getTransactionCount w (get params ''from'') = Inr nonce;
    eth_getGasPrice w = Inl err\<rbrakk> \<Longrightarrow>
   createSignedRawTransaction_promise L w params =
     (Rejected err, [GetTransactionCount (get params ''from''), GetGasPrice])"
  by (simp add: createSignedRawTransaction_promise_def)

lemma promise_estimateGas_fails:
  "\<lbrakk>payloadData L params = Inr payload; get params ''web3'' = JWeb3;
    eth_getTransactionCount w (get params ''from'') = Inr nonce;
    eth_getGasPrice w = Inr gasPrice; get params ''gasLimit'' = JUndefined;
    eth_estimateGas w (get params ''contractAddress'') payload = Inl err\<rbrakk> \<Longrightarrow>
   createSignedRawTransaction_promise L w params =
     (Rejected err, [GetTransactionCount (get params ''from''), GetGasPrice,
                     EstimateGas (get params ''contractAddress'') payload])"
  by (simp add: createSignedRawTransaction_promise_def)

text \<open>
  \<^verbatim>\<open>sendTransaction\<close> passes a rejection of the inner promise on, and rejects with the
  node's error when the broadcast fails.
\<close>

lemma sendTransaction_rejected:
  assumes "Joi_validate (joi_convert L) (h ! r) schema_sendTransaction = None"
    and "createSignedRawTransaction_promise L (new_Web3 L (get (h ! r) ''provider''))
           (send_copy (h ! r)) = (Rejected err, calls)"
  shows "sendTransaction L h r = (Rejected err, calls, h @ [send_copy (h ! r)])"
  using assms by (simp add: sendTransaction_valid Let_def)

lemma sendTransaction_broadcast_fails:
  assumes "Joi_validate (joi_convert L) (h ! r) schema_sendTransaction = None"
    and "createSignedRawTransaction_promise L (new_Web3 L (get (h ! r) ''provider''))
           (send_copy (h ! r)) = (Resolved rawTransaction, calls)"
    and "eth_sendRawTransaction (new_Web3 L (get (h ! r) ''provider'')) rawTransaction = Inl err"
  shows "sendTransaction L h r =
           (Rejected err, calls @ [SendRawTransaction rawTransaction], h @ [send_copy (h ! r)])"
  using assms by (simp add: sendTransaction_valid Let_def sendRawTransaction_def)

text \<open>
  A failure of \<^verbatim>\<open>sign_and_serialize\<close> is another matter: the promise is left unsettled.
\<close>

lemma promise_signing_fails:
  "\<lbrakk>payloadData L params = Inr payload; get params ''web3'' = JWeb3;
    eth_getTransactionCount w (get params ''from'') = Inr nonce;
    eth_getGasPrice w = Inr gasPrice; get params ''gasLimit'' \<noteq> JUndefined;
    sign_and_serialize L w params nonce payload gasPrice (get params ''gasLimit'') = Inl e\<rbrakk> \<Longrightarrow>
   fst (createSignedRawTransaction_promise L w params) = Uncaught e"
  by (simp add: createSignedRawTransaction_promise_def resolve_serialized_def)

lemma demo_bad_key_sign:
  "get p ''privateKey'' = JString ''zz'' \<Longrightarrow>
   sign_and_serialize demo_libs w p nonce payload gasPrice gasLimit = Inl (LibError 1)"
  by (simp add: sign_and_serialize_def demo_libs_def)

lemma demo_bad_key_valid:
  "Joi_validate (joi_convert demo_libs) (set_prop demo_params ''privateKey'' (JString ''zz''))
     schema_sendTransaction = None"
  "Joi_validate (joi_convert demo_libs) (set_prop demo_raw_params ''privateKey'' (JString ''zz''))
     schema_createSignedRawTransaction = None"
  by (simp_all add: Joi_validate_def joi_key_ok_def schema_sendTransaction_def
      schema_createSignedRawTransaction_def demo_params_def demo_raw_params_def
      lodash_assign_def lodash_omit_def set_prop_def get_def demo_abi_def)

text \<open>
  C6. The specification has every failure of a stage reject \<^verbatim>\<open>sendTransaction\<close> with the
  error of that stage. With a private key that cannot sign, the three reads are made, the
  signing step throws inside the callback of the last read, and the promise of
  \<^verbatim>\<open>sendTransaction\<close> is neither resolved nor rejected.
\<close>

theorem C6_signing_failure_leaves_promise_unsettled:
  "sendTransaction demo_libs [set_prop demo_params ''privateKey'' (JString ''zz'')] 0
     = (Uncaught (LibError 1),
        [GetTransactionCount (JString ''0x43aaE535BE7239c576FA3D152E14b1BC03fF4818''), GetGasPrice,
         EstimateGas (JString ''0x13ab619da719796aa7a97bf046a51528ac11bd0f'')
           (JArray [JObject [(''name'', JString ''double''),
                             (''inputs'', JArray [JString ''uint256''])],
                    JArray [JNumber 7]])],
        [set_prop demo_params ''privateKey'' (JString ''zz''),
         send_copy (set_prop demo_params ''privateKey'' (JString ''zz''))])"
proof -
  let ?p = "set_prop demo_params ''privateKey'' (JString ''zz'')"
  have "createSignedRawTransaction_promise demo_libs demo_web3 (send_copy ?p)
     = (Uncaught (LibError 1),
        [GetTransactionCount (JString ''0x43aaE535BE7239c576FA3D152E14b1BC03fF4818''), GetGasPrice,
         EstimateGas (JString ''0x13ab619da719796aa7a97bf046a51528ac11bd0f'')
           (JArray [JObject [(''name'', JString ''double''),
                             (''inputs'', JArray [JString ''uint256''])],
                    JArray [JNumber 7]])])"
    using promise_estimated [of "send_copy ?p" demo_libs _ demo_web3]
    by (simp add: get_send_copy get_send_copy_web3 get_set_prop demo_get demo_payloadData
        demo_web3_reads demo_bad_key_sign resolve_serialized_def)
  then show ?thesis
    using sendTransaction_valid [of demo_libs "[?p]" 0] demo_bad_key_valid(1)
    by (simp add: Let_def demo_web3_reads)
qed

text \<open>
  C10. The specification has a malformed private key fail the enclosing operation with
  the signing error. With the key \<^verbatim>\<open>zz\<close>, which is no hex string and has not the length
  of a key, \<^verbatim>\<open>sign_and_serialize\<close> throws, and \<^verbatim>\<open>createSignedRawTransaction\<close>, called with
  a gas limit, ends with its promise neither resolved nor rejected.
\<close>

theorem C10_malformed_key_leaves_promise_unsettled:
  "sign_and_serialize demo_libs demo_web3
     (with_default_value
        (set_prop (set_prop demo_raw_params ''privateKey'' (JString ''zz''))
           ''gasLimit'' (JNumber 21000)))
     (JNumber 0)
     (JArray [JObject [(''name'', JString ''double''), (''inputs'', JArray [JString ''uint256''])],
              JArray [JNumber 7]])
     (JNumber 20000000000) (JNumber 21000)
     = Inl (LibError 1) \<and>
   fst (createSignedRawTransaction demo_libs demo_web3
          [set_prop (set_prop demo_raw_params ''privateKey'' (JString ''zz''))
             ''gasLimit'' (JNumber 21000)] 0)
     = Uncaught (LibError 1) \<and>
   fst (snd (createSignedRawTransaction demo_libs demo_web3
          [set_prop (set_prop demo_raw_params ''privateKey'' (JString ''zz''))
             ''gasLimit'' (JNumber 21000)] 0))
     = [GetTransactionCount (JString ''0x43aaE535BE7239c576FA3D152E14b1BC03fF4818''), GetGasPrice]"
proof -
  let ?p = "set_prop (set_prop demo_raw_params ''privateKey'' (JString ''zz''))
              ''gasLimit'' (JNumber 21000)"
  have v: "Joi_validate (joi_convert demo_libs) ([?p] ! 0) schema_createSignedRawTransaction = None"
    by (simp add: Joi_validate_def joi_key_ok_def
      schema_createSignedRawTransaction_def demo_params_def demo_raw_params_def
      lodash_assign_def lodash_omit_def set_prop_def get_def demo_abi_def)
  have k: "get (with_default_value ?p) ''privateKey'' = JString ''zz''"
    by (simp add: get_with_default_value get_set_prop)
  have "createSignedRawTransaction_promise demo_libs demo_web3 (with_default_value ?p)
          = (Uncaught (LibError 1),
             [GetTransactionCount (JString ''0x43aaE535BE7239c576FA3D152E14b1BC03fF4818''),
              GetGasPrice])"
    using promise_supplied [of "with_default_value ?p" demo_libs _ demo_web3]
    by (simp add: get_with_default_value get_set_prop demo_raw_get demo_payloadData
        demo_web3_reads demo_bad_key_sign [OF k] resolve_serialized_def)
  then show ?thesis
    using createSignedRawTransaction_valid_default [OF v, of demo_web3]
    by (simp add: demo_bad_key_sign [OF k])
qed

end
